theory Spec2Isabelle
  imports Main
begin

section \<open>Python values, objects and the record of what a run does\<close>

text \<open>
  The repository is one Jupyter notebook, \<^verbatim>\<open>scraping_usage.ipynb\<close>, with three code
  cells. The notebook is a straight-line Python script: every statement either imports
  a name or binds a variable to the value of an expression. It is embedded as a list of
  state transformers, one per statement, run in order on the state of a fresh kernel.

  Immutable Python values (integers, strings, booleans, tuples, \<^verbatim>\<open>range\<close> objects, and
  the imported classes) are values. Lists and class instances are mutable and shared by
  reference, so they live in a store and a value refers to them by address.
\<close>

type_synonym addr = nat

datatype pyval =
    VInt int
  | VStr string
  | VBool bool
  | VTuple "pyval list"
  | VRange int int
  | VClass string string
  | VRef addr

type_synonym kwargs = "(string \<times> pyval) list"

text \<open>An instance carries the name of its class and its attributes, in the order they were set.\<close>

datatype pyobj =
    OList "pyval list"
  | OInst string kwargs

type_synonym heap = "pyobj list"

text \<open>
  What the notebook asks of the world outside its own variable bindings, in the order
  it asks: an import of a name from a module, a call of a builtin or of a class with
  its positional and keyword arguments, and the invocation of a method on a receiver.
\<close>

datatype callee = Builtin string | Class string string

datatype event =
    Import string string
  | Call callee "pyval list" kwargs
  | Invoke pyval string "pyval list" kwargs

text \<open>
  The kernel's state: the global variable bindings in the order they were made (a later
  binding of a name shadows an earlier one), the store, the log of events, and the
  exception that stopped the run, if any. After an exception a kernel keeps the bindings
  made so far and runs no later statement.
\<close>

record state =
  globals :: "(string \<times> pyval) list"
  heap :: heap
  trace :: "event list"
  raised :: "string option"

definition initial :: state where
  "initial = \<lparr>globals = [], heap = [], trace = [], raised = None\<rparr>"

definition lookup :: "state \<Rightarrow> string \<Rightarrow> pyval option" where
  "lookup s x = map_of (rev (globals s)) x"

definition assign :: "string \<Rightarrow> pyval \<Rightarrow> state \<Rightarrow> state" where
  "assign x v s = s\<lparr>globals := globals s @ [(x, v)]\<rparr>"

definition log :: "event \<Rightarrow> state \<Rightarrow> state" where
  "log e s = s\<lparr>trace := trace s @ [e]\<rparr>"

definition raise :: "string \<Rightarrow> state \<Rightarrow> state" where
  "raise e s = s\<lparr>raised := Some e\<rparr>"

definition alloc :: "pyobj \<Rightarrow> state \<Rightarrow> pyval \<times> state" where
  "alloc ob s = (VRef (length (heap s)), s\<lparr>heap := heap s @ [ob]\<rparr>)"

definition deref :: "heap \<Rightarrow> pyval \<Rightarrow> pyobj option" where
  "deref h v = (case v of VRef a \<Rightarrow> (if a < length h then Some (h ! a) else None) | _ \<Rightarrow> None)"

definition step :: "(state \<Rightarrow> state) \<Rightarrow> state \<Rightarrow> state" where
  "step f s = (if raised s = None then f s else s)"

definition exec :: "(state \<Rightarrow> state) list \<Rightarrow> state \<Rightarrow> state" where
  "exec stmts s = fold step stmts s"

section \<open>The builtins and the library the notebook calls\<close>

text \<open>
  \<^verbatim>\<open>range(a, b)\<close> is the immutable sequence \<open>a, a + 1, \<dots>, b - 1\<close>, empty when
  \<open>b \<le> a\<close>; \<^verbatim>\<open>list(it)\<close> is a new list of the items of an iterable, and a
  \<^verbatim>\<open>TypeError\<close> on a value that is not iterable.
\<close>

definition items :: "heap \<Rightarrow> pyval \<Rightarrow> pyval list option" where
  "items h v =
     (case v of
        VRange a b \<Rightarrow> Some (map VInt [a..b - 1])
      | VTuple vs \<Rightarrow> Some vs
      | VStr cs \<Rightarrow> Some (map (\<lambda>c. VStr [c]) cs)
      | VRef a \<Rightarrow> (case deref h (VRef a) of Some (OList vs) \<Rightarrow> Some vs | _ \<Rightarrow> None)
      | _ \<Rightarrow> None)"

text \<open>
  Modelled from the spec: the classes \<^verbatim>\<open>CalendarRange\<close> and \<^verbatim>\<open>ScrapingParameters\<close>
  of the module \<^verbatim>\<open>timescrap.types\<close>, which the notebook imports and which is not part of
  the source at hand. The spec describes both as data holders whose fields are the ones
  the notebook passes, with no validation rule: constructing one makes a new instance
  whose attributes are the keyword arguments.
\<close>

definition data_holder :: "string \<Rightarrow> kwargs \<Rightarrow> state \<Rightarrow> pyval \<times> state" where
  "data_holder cls kw s = alloc (OInst cls kw) s"

text \<open>
  The class \<^verbatim>\<open>TimeDotIrScraper\<close> of \<^verbatim>\<open>timescrap.proxy_scraper\<close> and its method
  \<^verbatim>\<open>scrape\<close> are opaque: nothing of their behaviour is visible. They are parameters of
  the model. Each receives its argument and the whole store, and either returns a value
  and a store, or raises.
\<close>

datatype outcome = Returns pyval heap | Raises string

record library =
  TimeDotIrScraper :: "pyval \<Rightarrow> heap \<Rightarrow> outcome"
  scrape :: "pyval \<Rightarrow> heap \<Rightarrow> outcome"

section \<open>The notebook, statement by statement\<close>

subsection \<open>Cell 1\<close>

text \<open>\<^verbatim>\<open>from timescrap.proxy_scraper import TimeDotIrScraper\<close>\<close>

definition import_proxy_scraper :: "state \<Rightarrow> state" where
  "import_proxy_scraper s =
     assign ''TimeDotIrScraper'' (VClass ''timescrap.proxy_scraper'' ''TimeDotIrScraper'')
       (log (Import ''timescrap.proxy_scraper'' ''TimeDotIrScraper'') s)"

text \<open>\<^verbatim>\<open>from timescrap.types import ScrapingParameters, CalendarRange\<close>\<close>

definition import_types :: "state \<Rightarrow> state" where
  "import_types s =
     assign ''CalendarRange'' (VClass ''timescrap.types'' ''CalendarRange'')
       (log (Import ''timescrap.types'' ''CalendarRange'')
         (assign ''ScrapingParameters'' (VClass ''timescrap.types'' ''ScrapingParameters'')
           (log (Import ''timescrap.types'' ''ScrapingParameters'') s)))"

definition cell_1 :: "(state \<Rightarrow> state) list" where
  "cell_1 = [import_proxy_scraper, import_types]"

subsection \<open>Cell 2: the configuration\<close>

text \<open>\<^verbatim>\<open>years = list(range(2019, 2025))\<close>\<close>

definition assign_years :: "state \<Rightarrow> state" where
  "assign_years s =
     (let s1 = log (Call (Builtin ''range'') [VInt 2019, VInt 2025] []) s;
          r = VRange 2019 2025;
          s2 = log (Call (Builtin ''list'') [r] []) s1
      in case items (heap s2) r of
           None \<Rightarrow> raise ''TypeError'' s2
         | Some vs \<Rightarrow> (case alloc (OList vs) s2 of (v, s3) \<Rightarrow> assign ''years'' v s3))"

text \<open>\<^verbatim>\<open>months = "whole_year"\<close>\<close>

definition assign_months :: "state \<Rightarrow> state" where
  "assign_months = assign ''months'' (VStr ''whole_year'')"

text \<open>\<^verbatim>\<open>days = "whole_month"\<close>\<close>

definition assign_days :: "state \<Rightarrow> state" where
  "assign_days = assign ''days'' (VStr ''whole_month'')"

text \<open>\<^verbatim>\<open>calenadr_type = "gregorian"\<close>\<close>

definition assign_calenadr_type :: "state \<Rightarrow> state" where
  "assign_calenadr_type = assign ''calenadr_type'' (VStr ''gregorian'')"

text \<open>\<^verbatim>\<open>sleep_range = (5, 10)\<close>\<close>

definition assign_sleep_range :: "state \<Rightarrow> state" where
  "assign_sleep_range = assign ''sleep_range'' (VTuple [VInt 5, VInt 10])"

text \<open>\<^verbatim>\<open>retry_limit_warning = 20\<close>\<close>

definition assign_retry_limit_warning :: "state \<Rightarrow> state" where
  "assign_retry_limit_warning = assign ''retry_limit_warning'' (VInt 20)"

text \<open>\<^verbatim>\<open>halt_limit = 50\<close>\<close>

definition assign_halt_limit :: "state \<Rightarrow> state" where
  "assign_halt_limit = assign ''halt_limit'' (VInt 50)"

text \<open>\<^verbatim>\<open>save_file_path = "gitignore_dir/time_dot_ir_2019_to_2024.json"\<close>\<close>

definition assign_save_file_path :: "state \<Rightarrow> state" where
  "assign_save_file_path =
     assign ''save_file_path'' (VStr ''gitignore_dir/time_dot_ir_2019_to_2024.json'')"

text \<open>\<^verbatim>\<open>resume = True\<close>\<close>

definition assign_resume :: "state \<Rightarrow> state" where
  "assign_resume = assign ''resume'' (VBool True)"

subsection \<open>Cell 2: the two data holders\<close>

text \<open>
  A call evaluates the name of the class, then each keyword argument in the order
  written, each a read of a global variable (a \<^verbatim>\<open>NameError\<close> when it is unbound); the
  name must be bound to the class the call is modelled for.
\<close>

definition read_all :: "state \<Rightarrow> string list \<Rightarrow> pyval list option" where
  "read_all s xs = those (map (lookup s) xs)"

text \<open>
  \<^verbatim>\<open>calendar_range = CalendarRange(calenadr_type=calenadr_type, years=years,
      months=months, days=days)\<close>
\<close>

definition assign_calendar_range :: "state \<Rightarrow> state" where
  "assign_calendar_range s =
     (case read_all s [''CalendarRange'', ''calenadr_type'', ''years'', ''months'', ''days''] of
        Some [VClass m c, a1, a2, a3, a4] \<Rightarrow>
          (if (m, c) = (''timescrap.types'', ''CalendarRange'') then
             (let kw = [(''calenadr_type'', a1), (''years'', a2), (''months'', a3), (''days'', a4)]
              in case data_holder c kw (log (Call (Class m c) [] kw) s) of
                   (v, s') \<Rightarrow> assign ''calendar_range'' v s')
           else raise ''TypeError'' s)
      | Some _ \<Rightarrow> raise ''TypeError'' s
      | None \<Rightarrow> raise ''NameError'' s)"

text \<open>
  \<^verbatim>\<open>scraping_parameters = ScrapingParameters(calendar_range=calendar_range,
      sleep_range=sleep_range, retry_limit_warning=retry_limit_warning,
      halt_limit=halt_limit, save_file_path=save_file_path, resume=resume)\<close>
\<close>

definition assign_scraping_parameters :: "state \<Rightarrow> state" where
  "assign_scraping_parameters s =
     (case read_all s [''ScrapingParameters'', ''calendar_range'', ''sleep_range'',
                       ''retry_limit_warning'', ''halt_limit'', ''save_file_path'', ''resume''] of
        Some [VClass m c, a1, a2, a3, a4, a5, a6] \<Rightarrow>
          (if (m, c) = (''timescrap.types'', ''ScrapingParameters'') then
             (let kw = [(''calendar_range'', a1), (''sleep_range'', a2),
                        (''retry_limit_warning'', a3), (''halt_limit'', a4),
                        (''save_file_path'', a5), (''resume'', a6)]
              in case data_holder c kw (log (Call (Class m c) [] kw) s) of
                   (v, s') \<Rightarrow> assign ''scraping_parameters'' v s')
           else raise ''TypeError'' s)
      | Some _ \<Rightarrow> raise ''TypeError'' s
      | None \<Rightarrow> raise ''NameError'' s)"

definition cell_2_setup :: "(state \<Rightarrow> state) list" where
  "cell_2_setup =
     [assign_years, assign_months, assign_days, assign_calenadr_type, assign_sleep_range,
      assign_retry_limit_warning, assign_halt_limit, assign_save_file_path, assign_resume,
      assign_calendar_range, assign_scraping_parameters]"

subsection \<open>Cell 2: the scraper and the run\<close>

text \<open>\<^verbatim>\<open>scraper = TimeDotIrScraper(scraping_parameters)\<close>\<close>

definition assign_scraper :: "library \<Rightarrow> state \<Rightarrow> state" where
  "assign_scraper lib s =
     (case read_all s [''TimeDotIrScraper'', ''scraping_parameters''] of
        Some [VClass m c, p] \<Rightarrow>
          (if (m, c) = (''timescrap.proxy_scraper'', ''TimeDotIrScraper'') then
             (let s1 = log (Call (Class m c) [p] []) s
              in case TimeDotIrScraper lib p (heap s1) of
                   Returns v h \<Rightarrow> assign ''scraper'' v (s1\<lparr>heap := h\<rparr>)
                 | Raises e \<Rightarrow> raise e s1)
           else raise ''TypeError'' s)
      | Some _ \<Rightarrow> raise ''TypeError'' s
      | None \<Rightarrow> raise ''NameError'' s)"

text \<open>\<^verbatim>\<open>results = scraper.scrape()\<close>\<close>

definition assign_results :: "library \<Rightarrow> state \<Rightarrow> state" where
  "assign_results lib s =
     (case lookup s ''scraper'' of
        Some self \<Rightarrow>
          (let s1 = log (Invoke self ''scrape'' [] []) s
           in case scrape lib self (heap s1) of
                Returns v h \<Rightarrow> assign ''results'' v (s1\<lparr>heap := h\<rparr>)
              | Raises e \<Rightarrow> raise e s1)
      | None \<Rightarrow> raise ''NameError'' s)"

definition cell_2_run :: "library \<Rightarrow> (state \<Rightarrow> state) list" where
  "cell_2_run lib = [assign_scraper lib, assign_results lib]"

definition cell_2 :: "library \<Rightarrow> (state \<Rightarrow> state) list" where
  "cell_2 lib = cell_2_setup @ cell_2_run lib"

subsection \<open>Cell 3 and the whole notebook\<close>

text \<open>Cell 3 holds the comment \<^verbatim>\<open># 2192\<close> and no statement.\<close>

definition cell_3 :: "(state \<Rightarrow> state) list" where
  "cell_3 = []"

definition notebook :: "library \<Rightarrow> state" where
  "notebook lib = exec (cell_1 @ cell_2 lib @ cell_3) initial"

text \<open>
  The state once the configuration is assembled, before the first call into the opaque
  part of the library: cell 1 and the statements of cell 2 up to the construction of
  \<^verbatim>\<open>scraping_parameters\<close>.
\<close>

definition assembled :: state where
  "assembled = exec (cell_1 @ cell_2_setup) initial"

section \<open>Reading the state and the log\<close>

text \<open>
  Attribute access \<^verbatim>\<open>obj.f\<close>: the attribute of an instance, and nothing (an
  \<^verbatim>\<open>AttributeError\<close>) when the instance has no such attribute or the value is no instance.
\<close>

definition getattr :: "heap \<Rightarrow> pyval \<Rightarrow> string \<Rightarrow> pyval option" where
  "getattr h v f = (case deref h v of Some (OInst _ kw) \<Rightarrow> map_of kw f | _ \<Rightarrow> None)"

fun is_import :: "event \<Rightarrow> bool" where
  "is_import (Import _ _) = True"
| "is_import _ = False"

fun is_builtin_call :: "event \<Rightarrow> bool" where
  "is_builtin_call (Call (Builtin _) _ _) = True"
| "is_builtin_call _ = False"

fun is_construction :: "event \<Rightarrow> bool" where
  "is_construction (Call (Class _ _) _ _) = True"
| "is_construction _ = False"

fun is_invocation :: "event \<Rightarrow> bool" where
  "is_invocation (Invoke _ _ _ _) = True"
| "is_invocation _ = False"

fun constructs :: "string \<Rightarrow> event \<Rightarrow> bool" where
  "constructs cls (Call (Class _ c) _ _) = (c = cls)"
| "constructs cls _ = False"

fun positional_args :: "event \<Rightarrow> pyval list" where
  "positional_args (Call _ args _) = args"
| "positional_args (Invoke _ _ args _) = args"
| "positional_args (Import _ _) = []"

fun keyword_args :: "event \<Rightarrow> kwargs" where
  "keyword_args (Call _ _ kw) = kw"
| "keyword_args (Invoke _ _ _ kw) = kw"
| "keyword_args (Import _ _) = []"

text \<open>The name the notebook calls or imports in an event.\<close>

fun called :: "event \<Rightarrow> string" where
  "called (Call (Builtin f) _ _) = f"
| "called (Call (Class _ c) _ _) = c"
| "called (Invoke _ m _ _) = m"
| "called (Import _ x) = x"

text \<open>An event receives a value when the value is one of its arguments.\<close>

definition receives :: "pyval \<Rightarrow> event \<Rightarrow> bool" where
  "receives v e = (v \<in> set (positional_args e) \<or> v \<in> set (map snd (keyword_args e)))"

text \<open>The bindings made of one variable, in order: one entry per assignment to it.\<close>

definition bindings :: "string \<Rightarrow> state \<Rightarrow> pyval list" where
  "bindings x s = map snd (filter (\<lambda>b. fst b = x) (globals s))"


text \<open>
  The one construction of a class in the log: the call, when the log holds exactly one
  call of the class, and nothing when it holds none or several.
\<close>

definition sole_construction :: "string \<Rightarrow> state \<Rightarrow> event option" where
  "sole_construction cls s =
     (case filter (constructs cls) (trace s) of [e] \<Rightarrow> Some e | _ \<Rightarrow> None)"

text \<open>
  Every keyword argument of an event is the value of the global variable of the same
  name, as in \<^verbatim>\<open>years=years\<close>.
\<close>

definition from_variables :: "state \<Rightarrow> event \<Rightarrow> bool" where
  "from_variables s e =
     (map (lookup s \<circ> fst) (keyword_args e) = map (Some \<circ> snd) (keyword_args e))"

text \<open>
  The two orderings among the settings passed to a parameters object: the delay
  interval is a pair of integers with the lower bound below the upper one, and the
  warning threshold is an integer below the halt threshold.
\<close>

definition ordering_invariants :: "kwargs \<Rightarrow> bool" where
  "ordering_invariants kw =
     (case (map_of kw ''sleep_range'', map_of kw ''retry_limit_warning'',
            map_of kw ''halt_limit'') of
        (Some (VTuple [VInt lo, VInt hi]), Some (VInt w), Some (VInt l)) \<Rightarrow> lo < hi \<and> w < l
      | _ \<Rightarrow> False)"

text \<open>The decimal numeral of a natural number, as Python's \<^verbatim>\<open>str\<close> writes it.\<close>

fun decimal :: "nat \<Rightarrow> string" where
  "decimal n =
     (if n < 10 then [''0123456789'' ! n]
      else decimal (n div 10) @ [''0123456789'' ! (n mod 10)])"

declare decimal.simps [simp del]

text \<open>
  A stand-in library to run the notebook on: its constructor makes an instance that
  keeps the parameters it was given, and its \<^verbatim>\<open>scrape\<close> returns a new empty list.
  Neither touches an object that exists already.
\<close>

definition stub_library :: library where
  "stub_library =
     \<lparr>TimeDotIrScraper =
        (\<lambda>p h. Returns (VRef (length h)) (h @ [OInst ''TimeDotIrScraper'' [(''parameters'', p)]])),
      scrape = (\<lambda>self h. Returns (VRef (length h)) (h @ [OList []]))\<rparr>"



section \<open>The state the notebook reaches\<close>

lemmas stmt_defs =
  import_proxy_scraper_def import_types_def assign_years_def assign_months_def assign_days_def
  assign_calenadr_type_def assign_sleep_range_def assign_retry_limit_warning_def
  assign_halt_limit_def assign_save_file_path_def assign_resume_def
  assign_calendar_range_def assign_scraping_parameters_def read_all_def lookup_def
  assign_def log_def raise_def alloc_def data_holder_def items_def deref_def

text \<open>Running cell 1 and the configuration part of cell 2 from a fresh kernel.\<close>

lemma assembled_eq:
  "assembled =
     \<lparr>globals =
        [(''TimeDotIrScraper'', VClass ''timescrap.proxy_scraper'' ''TimeDotIrScraper''),
         (''ScrapingParameters'', VClass ''timescrap.types'' ''ScrapingParameters''),
         (''CalendarRange'', VClass ''timescrap.types'' ''CalendarRange''),
         (''years'', VRef 0), (''months'', VStr ''whole_year''),
         (''days'', VStr ''whole_month''),
         (''calenadr_type'', VStr ''gregorian''),
         (''sleep_range'', VTuple [VInt 5, VInt 10]),
         (''retry_limit_warning'', VInt 20), (''halt_limit'', VInt 50),
         (''save_file_path'', VStr ''gitignore_dir/time_dot_ir_2019_to_2024.json''),
         (''resume'', VBool True), (''calendar_range'', VRef 1),
         (''scraping_parameters'', VRef 2)],
      heap =
        [OList [VInt 2019, VInt 2020, VInt 2021, VInt 2022, VInt 2023, VInt 2024],
         OInst ''CalendarRange''
          [(''calenadr_type'', VStr ''gregorian''), (''years'', VRef 0),
           (''months'', VStr ''whole_year''), (''days'', VStr ''whole_month'')],
         OInst ''ScrapingParameters''
          [(''calendar_range'', VRef 1), (''sleep_range'', VTuple [VInt 5, VInt 10]),
           (''retry_limit_warning'', VInt 20), (''halt_limit'', VInt 50),
           (''save_file_path'', VStr ''gitignore_dir/time_dot_ir_2019_to_2024.json''),
           (''resume'', VBool True)]],
      trace =
        [Import ''timescrap.proxy_scraper'' ''TimeDotIrScraper'',
         Import ''timescrap.types'' ''ScrapingParameters'',
         Import ''timescrap.types'' ''CalendarRange'',
         Call (Builtin ''range'') [VInt 2019, VInt 2025] [],
         Call (Builtin ''list'') [VRange 2019 2025] [],
         Call (Class ''timescrap.types'' ''CalendarRange'') []
          [(''calenadr_type'', VStr ''gregorian''), (''years'', VRef 0),
           (''months'', VStr ''whole_year''), (''days'', VStr ''whole_month'')],
         Call (Class ''timescrap.types'' ''ScrapingParameters'') []
          [(''calendar_range'', VRef 1), (''sleep_range'', VTuple [VInt 5, VInt 10]),
           (''retry_limit_warning'', VInt 20), (''halt_limit'', VInt 50),
           (''save_file_path'', VStr ''gitignore_dir/time_dot_ir_2019_to_2024.json''),
           (''resume'', VBool True)]],
      raised = None\<rparr>"
  by (simp add: assembled_def exec_def cell_1_def cell_2_setup_def step_def initial_def
      stmt_defs Let_def)

text \<open>The rest of the notebook runs from there.\<close>

lemma notebook_split: "notebook lib = exec (cell_2_run lib) assembled"
  by (simp add: notebook_def assembled_def cell_2_def cell_3_def exec_def)

lemmas run_defs =
  notebook_split cell_2_run_def exec_def step_def assign_scraper_def assign_results_def
  read_all_def lookup_def assign_def log_def raise_def assembled_eq

text \<open>
  The three ways the run can end: the scraper's constructor raises; it returns and
  \<^verbatim>\<open>scrape\<close> raises; both return.
\<close>

lemma notebook_constructor_raises:
  assumes "TimeDotIrScraper lib (VRef 2) (heap assembled) = Raises e"
  shows "notebook lib =
    assembled\<lparr>trace := trace assembled @
        [Call (Class ''timescrap.proxy_scraper'' ''TimeDotIrScraper'') [VRef 2] []],
      raised := Some e\<rparr>"
  using assms by (simp add: run_defs)

lemma notebook_scrape_raises:
  assumes "TimeDotIrScraper lib (VRef 2) (heap assembled) = Returns scr h1"
    and "scrape lib scr h1 = Raises e"
  shows "notebook lib =
    assembled\<lparr>globals := globals assembled @ [(''scraper'', scr)],
      heap := h1,
      trace := trace assembled @
        [Call (Class ''timescrap.proxy_scraper'' ''TimeDotIrScraper'') [VRef 2] [],
         Invoke scr ''scrape'' [] []],
      raised := Some e\<rparr>"
  using assms by (simp add: run_defs)

lemma notebook_completes:
  assumes "TimeDotIrScraper lib (VRef 2) (heap assembled) = Returns scr h1"
    and "scrape lib scr h1 = Returns r h2"
  shows "notebook lib =
    assembled\<lparr>globals := globals assembled @ [(''scraper'', scr), (''results'', r)],
      heap := h2,
      trace := trace assembled @
        [Call (Class ''timescrap.proxy_scraper'' ''TimeDotIrScraper'') [VRef 2] [],
         Invoke scr ''scrape'' [] []]\<rparr>"
  using assms by (simp add: run_defs)

text \<open>The stand-in library returns from both calls.\<close>

lemma stub_constructor:
  "TimeDotIrScraper stub_library (VRef 2) (heap assembled) =
     Returns (VRef 3) (heap assembled @ [OInst ''TimeDotIrScraper'' [(''parameters'', VRef 2)]])"
  by (simp add: stub_library_def assembled_eq)

lemma stub_scrape:
  "scrape stub_library (VRef 3)
     (heap assembled @ [OInst ''TimeDotIrScraper'' [(''parameters'', VRef 2)]]) =
   Returns (VRef 4)
     (heap assembled @ [OInst ''TimeDotIrScraper'' [(''parameters'', VRef 2)], OList []])"
  by (simp add: stub_library_def assembled_eq)




lemma decimal_2019: "decimal 2019 = ''2019''"
  by code_simp

lemma decimal_2024: "decimal 2024 = ''2024''"
  by code_simp

section \<open>What the notebook passes to the data holders\<close>

text \<open>
  Claim C3. The notebook constructs \<^verbatim>\<open>ScrapingParameters\<close> once, with no positional
  argument and exactly six keyword arguments: \<^verbatim>\<open>calendar_range\<close> (the
  \<^verbatim>\<open>CalendarRange\<close> instance), \<^verbatim>\<open>sleep_range\<close> (a pair, the delay interval),
  \<^verbatim>\<open>retry_limit_warning\<close> and \<^verbatim>\<open>halt_limit\<close> (integers), \<^verbatim>\<open>save_file_path\<close> (a
  string) and \<^verbatim>\<open>resume\<close> (a boolean). Each is the value of the variable of the same
  name, and all six variables are bound before \<^verbatim>\<open>scraping_parameters\<close> is. The
  instance holds these six attributes.
\<close>

theorem scraping_parameters_six_fields:
  "sole_construction ''ScrapingParameters'' assembled =
     Some (Call (Class ''timescrap.types'' ''ScrapingParameters'') []
       [(''calendar_range'', VRef 1),
        (''sleep_range'', VTuple [VInt 5, VInt 10]),
        (''retry_limit_warning'', VInt 20),
        (''halt_limit'', VInt 50),
        (''save_file_path'', VStr ''gitignore_dir/time_dot_ir_2019_to_2024.json''),
        (''resume'', VBool True)])
   \<and> map_option (length \<circ> keyword_args) (sole_construction ''ScrapingParameters'' assembled)
       = Some 6
   \<and> map_option (from_variables assembled) (sole_construction ''ScrapingParameters'' assembled)
       = Some True
   \<and> map fst (globals assembled) =
       [''TimeDotIrScraper'', ''ScrapingParameters'', ''CalendarRange'',
        ''years'', ''months'', ''days'', ''calenadr_type'', ''sleep_range'',
        ''retry_limit_warning'', ''halt_limit'', ''save_file_path'', ''resume'',
        ''calendar_range'', ''scraping_parameters'']
   \<and> bindings ''scraping_parameters'' assembled = [VRef 2]
   \<and> deref (heap assembled) (VRef 2) =
       Some (OInst ''ScrapingParameters''
         [(''calendar_range'', VRef 1),
          (''sleep_range'', VTuple [VInt 5, VInt 10]),
          (''retry_limit_warning'', VInt 20),
          (''halt_limit'', VInt 50),
          (''save_file_path'', VStr ''gitignore_dir/time_dot_ir_2019_to_2024.json''),
          (''resume'', VBool True)])
   \<and> deref (heap assembled) (VRef 1) =
       Some (OInst ''CalendarRange''
         [(''calenadr_type'', VStr ''gregorian''), (''years'', VRef 0),
          (''months'', VStr ''whole_year''), (''days'', VStr ''whole_month'')])"
  by (simp add: assembled_eq sole_construction_def from_variables_def bindings_def
      lookup_def deref_def)

text \<open>
  Claim C4. The notebook constructs \<^verbatim>\<open>CalendarRange\<close> once, with the calendar system
  \<^verbatim>\<open>"gregorian"\<close>, with \<^verbatim>\<open>years\<close> a list object, with \<^verbatim>\<open>months\<close> the string
  \<^verbatim>\<open>"whole_year"\<close> and \<^verbatim>\<open>days\<close> the string \<^verbatim>\<open>"whole_month"\<close>; the instance bound to
  \<^verbatim>\<open>calendar_range\<close> carries these four attributes.
\<close>

theorem calendar_range_fields:
  "sole_construction ''CalendarRange'' assembled =
     Some (Call (Class ''timescrap.types'' ''CalendarRange'') []
       [(''calenadr_type'', VStr ''gregorian''),
        (''years'', VRef 0),
        (''months'', VStr ''whole_year''),
        (''days'', VStr ''whole_month'')])
   \<and> deref (heap assembled) (VRef 0) =
       Some (OList [VInt 2019, VInt 2020, VInt 2021, VInt 2022, VInt 2023, VInt 2024])
   \<and> bindings ''calendar_range'' assembled = [VRef 1]
   \<and> getattr (heap assembled) (VRef 1) ''calenadr_type'' = Some (VStr ''gregorian'')
   \<and> getattr (heap assembled) (VRef 1) ''years'' = Some (VRef 0)
   \<and> getattr (heap assembled) (VRef 1) ''months'' = Some (VStr ''whole_year'')
   \<and> getattr (heap assembled) (VRef 1) ''days'' = Some (VStr ''whole_month'')"
  by (simp add: assembled_eq sole_construction_def bindings_def deref_def getattr_def)

text \<open>
  Claim C8. The keyword under which the calendar system goes to \<^verbatim>\<open>CalendarRange\<close> is
  \<^verbatim>\<open>calenadr_type\<close>, as is the variable it is read from. Under the conventional spelling
  \<^verbatim>\<open>calendar_type\<close> the call passes nothing, the instance has no attribute, and no
  variable is bound: a caller that spells the name so does not meet the interface the
  notebook uses.
\<close>

theorem calendar_type_keyword_misspelled:
  "map_option (map fst \<circ> keyword_args) (sole_construction ''CalendarRange'' assembled) =
     Some [''calenadr_type'', ''years'', ''months'', ''days'']
   \<and> map_option (\<lambda>e. map_of (keyword_args e) ''calenadr_type'')
        (sole_construction ''CalendarRange'' assembled) = Some (Some (VStr ''gregorian''))
   \<and> map_option (\<lambda>e. map_of (keyword_args e) ''calendar_type'')
        (sole_construction ''CalendarRange'' assembled) = Some None
   \<and> map_option (from_variables assembled) (sole_construction ''CalendarRange'' assembled)
       = Some True
   \<and> getattr (heap assembled) (VRef 1) ''calenadr_type'' = Some (VStr ''gregorian'')
   \<and> getattr (heap assembled) (VRef 1) ''calendar_type'' = None
   \<and> bindings ''calenadr_type'' assembled = [VStr ''gregorian'']
   \<and> bindings ''calendar_type'' assembled = []
   \<and> ''calenadr_type'' \<noteq> ''calendar_type''"
  by (simp add: assembled_eq sole_construction_def from_variables_def bindings_def
      lookup_def deref_def getattr_def)

text \<open>
  Claim C9. The \<^verbatim>\<open>years\<close> passed to \<^verbatim>\<open>CalendarRange\<close> is the list
  \<open>[2019, 2020, 2021, 2022, 2023, 2024]\<close>, the items of \<^verbatim>\<open>range(2019, 2025)\<close>: it holds
  2024 and not 2025, six years, and its first and last year are the two the name of the
  output file spells.
\<close>

theorem years_2019_to_2024:
  "map_option (\<lambda>e. map_of (keyword_args e) ''years'')
      (sole_construction ''CalendarRange'' assembled) = Some (Some (VRef 0))
   \<and> bindings ''years'' assembled = [VRef 0]
   \<and> items (heap assembled) (VRef 0) =
       Some [VInt 2019, VInt 2020, VInt 2021, VInt 2022, VInt 2023, VInt 2024]
   \<and> items (heap assembled) (VRef 0) = items [] (VRange 2019 2025)
   \<and> map_option (\<lambda>ys. (VInt 2024 \<in> set ys, VInt 2025 \<in> set ys, length ys))
        (items (heap assembled) (VRef 0)) = Some (True, False, 6)
   \<and> map_option (\<lambda>ys. (hd ys, last ys)) (items (heap assembled) (VRef 0)) =
       Some (VInt 2019, VInt 2024)
   \<and> bindings ''save_file_path'' assembled =
       [VStr (''gitignore_dir/time_dot_ir_'' @ decimal 2019 @ ''_to_'' @ decimal 2024
              @ ''.json'')]"
  by (simp add: assembled_eq sole_construction_def bindings_def deref_def items_def
      decimal_2019 decimal_2024)

text \<open>
  Claim C10. The settings the notebook passes to \<^verbatim>\<open>ScrapingParameters\<close> are ordered:
  the delay interval is \<open>(5, 10)\<close> with \<open>5 < 10\<close>, and the warning threshold 20 is
  below the halt threshold 50.
\<close>

theorem configuration_ordering_invariants:
  "map_option (ordering_invariants \<circ> keyword_args)
      (sole_construction ''ScrapingParameters'' assembled) = Some True
   \<and> map_option (\<lambda>e. map (map_of (keyword_args e))
          [''sleep_range'', ''retry_limit_warning'', ''halt_limit''])
        (sole_construction ''ScrapingParameters'' assembled) =
       Some [Some (VTuple [VInt 5, VInt 10]), Some (VInt 20), Some (VInt 50)]
   \<and> bindings ''sleep_range'' assembled = [VTuple [VInt 5, VInt 10]]
   \<and> bindings ''retry_limit_warning'' assembled = [VInt 20]
   \<and> bindings ''halt_limit'' assembled = [VInt 50]"
  by (simp add: assembled_eq sole_construction_def bindings_def ordering_invariants_def)

section \<open>The whole run\<close>

text \<open>
  Claim C7. The output file is only named: the one binding of \<^verbatim>\<open>save_file_path\<close> is the
  string \<^verbatim>\<open>"gitignore_dir/time_dot_ir_2019_to_2024.json"\<close>, which ends in \<^verbatim>\<open>.json\<close>;
  however the library behaves, the only thing the notebook does with that string is to
  pass it as the keyword argument \<^verbatim>\<open>save_file_path\<close> of \<^verbatim>\<open>ScrapingParameters\<close>, and the
  only builtins the notebook calls are \<^verbatim>\<open>range\<close> and \<^verbatim>\<open>list\<close>, none that opens, reads
  or writes a file.
\<close>

theorem save_file_path_only_a_parameter:
  "bindings ''save_file_path'' (notebook lib) =
     [VStr (''gitignore_dir/time_dot_ir_2019_to_2024'' @ ''.json'')]
   \<and> filter (receives (VStr ''gitignore_dir/time_dot_ir_2019_to_2024.json''))
        (trace (notebook lib)) =
      [Call (Class ''timescrap.types'' ''ScrapingParameters'') []
        [(''calendar_range'', VRef 1),
         (''sleep_range'', VTuple [VInt 5, VInt 10]),
         (''retry_limit_warning'', VInt 20),
         (''halt_limit'', VInt 50),
         (''save_file_path'', VStr ''gitignore_dir/time_dot_ir_2019_to_2024.json''),
         (''resume'', VBool True)]]
   \<and> map called (filter is_builtin_call (trace (notebook lib))) = [''range'', ''list'']"
proof (cases "TimeDotIrScraper lib (VRef 2) (heap assembled)")
  case (Raises e)
  show ?thesis
    by (simp add: notebook_constructor_raises [OF Raises] assembled_eq bindings_def receives_def)
next
  case init: (Returns scr h1)
  show ?thesis
  proof (cases "scrape lib scr h1")
    case (Raises e)
    show ?thesis
      by (simp add: notebook_scrape_raises [OF init Raises] assembled_eq bindings_def
          receives_def)
  next
    case (Returns r h2)
    show ?thesis
      by (simp add: notebook_completes [OF init Returns] assembled_eq bindings_def
          receives_def)
  qed
qed

text \<open>
  Claim C1. On a run where the library's constructor and \<^verbatim>\<open>scrape\<close> return, the
  notebook, in this order, constructs a \<^verbatim>\<open>CalendarRange\<close>, constructs a
  \<^verbatim>\<open>ScrapingParameters\<close> from it and the retry, delay and resume settings, constructs a
  \<^verbatim>\<open>TimeDotIrScraper\<close> from that parameters object, and invokes \<^verbatim>\<open>scrape\<close> on that
  scraper; \<^verbatim>\<open>results\<close> is bound to the value \<^verbatim>\<open>scrape\<close> returned.
\<close>

theorem notebook_order_of_operations:
  assumes "TimeDotIrScraper lib (VRef 2) (heap assembled) = Returns scr h1"
    and "scrape lib scr h1 = Returns r h2"
  shows "filter (\<lambda>e. \<not> is_import e \<and> \<not> is_builtin_call e) (trace (notebook lib)) =
      [Call (Class ''timescrap.types'' ''CalendarRange'') []
         [(''calenadr_type'', VStr ''gregorian''), (''years'', VRef 0),
          (''months'', VStr ''whole_year''), (''days'', VStr ''whole_month'')],
       Call (Class ''timescrap.types'' ''ScrapingParameters'') []
         [(''calendar_range'', VRef 1),
          (''sleep_range'', VTuple [VInt 5, VInt 10]),
          (''retry_limit_warning'', VInt 20),
          (''halt_limit'', VInt 50),
          (''save_file_path'', VStr ''gitignore_dir/time_dot_ir_2019_to_2024.json''),
          (''resume'', VBool True)],
       Call (Class ''timescrap.proxy_scraper'' ''TimeDotIrScraper'') [VRef 2] [],
       Invoke scr ''scrape'' [] []]
    \<and> bindings ''calendar_range'' (notebook lib) = [VRef 1]
    \<and> bindings ''scraping_parameters'' (notebook lib) = [VRef 2]
    \<and> bindings ''scraper'' (notebook lib) = [scr]
    \<and> bindings ''results'' (notebook lib) = [r]
    \<and> lookup (notebook lib) ''results'' = Some r
    \<and> raised (notebook lib) = None"
  by (simp add: notebook_completes [OF assms] assembled_eq bindings_def lookup_def)

theorem notebook_order_of_operations_witness:
  "map called (filter (\<lambda>e. \<not> is_import e \<and> \<not> is_builtin_call e)
      (trace (notebook stub_library))) =
     [''CalendarRange'', ''ScrapingParameters'', ''TimeDotIrScraper'', ''scrape'']
   \<and> bindings ''scraper'' (notebook stub_library) = [VRef 3]
   \<and> bindings ''results'' (notebook stub_library) = [VRef 4]"
  using notebook_order_of_operations [OF stub_constructor stub_scrape] by simp

text \<open>
  Claim C2, as stated: the notebook makes exactly two constructor calls, then exactly
  one method invocation, and no other call. On the stand-in library the run makes
  three constructor calls and two calls of builtins, so the statement fails.
\<close>

theorem two_constructor_calls_counterexample:
  "\<not> (length (filter is_construction (trace (notebook stub_library))) = 2
      \<and> length (filter is_invocation (trace (notebook stub_library))) = 1
      \<and> filter is_builtin_call (trace (notebook stub_library)) = [])"
  by (simp add: notebook_completes [OF stub_constructor stub_scrape] assembled_eq)

text \<open>
  Claim C2, amended. On a run where the library's constructor and \<^verbatim>\<open>scrape\<close> return,
  the notebook imports three names, calls the builtins \<^verbatim>\<open>range\<close> and \<^verbatim>\<open>list\<close>, makes
  exactly three constructor calls (\<^verbatim>\<open>CalendarRange\<close>, \<^verbatim>\<open>ScrapingParameters\<close>,
  \<^verbatim>\<open>TimeDotIrScraper\<close>) and then exactly one method invocation, \<^verbatim>\<open>scrape\<close>, which is
  the last thing it does; it makes no other call. Besides the three imported names it
  binds thirteen variables, each once.
\<close>

theorem notebook_calls_amended:
  assumes "TimeDotIrScraper lib (VRef 2) (heap assembled) = Returns scr h1"
    and "scrape lib scr h1 = Returns r h2"
  shows "map called (filter is_import (trace (notebook lib))) =
        [''TimeDotIrScraper'', ''ScrapingParameters'', ''CalendarRange'']
    \<and> map called (filter is_builtin_call (trace (notebook lib))) = [''range'', ''list'']
    \<and> map called (filter is_construction (trace (notebook lib))) =
        [''CalendarRange'', ''ScrapingParameters'', ''TimeDotIrScraper'']
    \<and> filter is_invocation (trace (notebook lib)) = [Invoke scr ''scrape'' [] []]
    \<and> map called (trace (notebook lib)) =
        [''TimeDotIrScraper'', ''ScrapingParameters'', ''CalendarRange'',
         ''range'', ''list'', ''CalendarRange'', ''ScrapingParameters'', ''TimeDotIrScraper'',
         ''scrape'']
    \<and> map fst (globals (notebook lib)) =
        [''TimeDotIrScraper'', ''ScrapingParameters'', ''CalendarRange'',
         ''years'', ''months'', ''days'', ''calenadr_type'', ''sleep_range'',
         ''retry_limit_warning'', ''halt_limit'', ''save_file_path'', ''resume'',
         ''calendar_range'', ''scraping_parameters'', ''scraper'', ''results'']"
  by (simp add: notebook_completes [OF assms] assembled_eq)

theorem notebook_calls_amended_witness:
  "length (filter is_construction (trace (notebook stub_library))) = 3
   \<and> length (filter is_builtin_call (trace (notebook stub_library))) = 2
   \<and> length (filter is_invocation (trace (notebook stub_library))) = 1
   \<and> length (trace (notebook stub_library)) = 9"
proof -
  note run = notebook_calls_amended [OF stub_constructor stub_scrape]
  have "length (map called (filter is_construction (trace (notebook stub_library)))) = 3"
    and "length (map called (filter is_builtin_call (trace (notebook stub_library)))) = 2"
    and "length (filter is_invocation (trace (notebook stub_library))) = 1"
    and "length (map called (trace (notebook stub_library))) = 9"
    using run by simp_all
  then show ?thesis by simp
qed

text \<open>
  Claim C6. On a run where the scraper's constructor returns, the notebook invokes
  exactly one method, \<^verbatim>\<open>scrape\<close> with no argument, on the one scraper it constructed
  and bound to \<^verbatim>\<open>scraper\<close>. The names it calls are the two builtins, the three classes
  and \<^verbatim>\<open>scrape\<close>, none of which starts a thread, a process or a task. The call is
  synchronous: the statement ends with the call's own outcome, \<^verbatim>\<open>results\<close> bound to
  the value returned, or the exception raised and \<^verbatim>\<open>results\<close> unbound.
\<close>

theorem scrape_invoked_once:
  assumes "TimeDotIrScraper lib (VRef 2) (heap assembled) = Returns scr h1"
  shows "filter is_invocation (trace (notebook lib)) = [Invoke scr ''scrape'' [] []]
    \<and> bindings ''scraper'' (notebook lib) = [scr]
    \<and> sole_construction ''TimeDotIrScraper'' (notebook lib) =
        Some (Call (Class ''timescrap.proxy_scraper'' ''TimeDotIrScraper'') [VRef 2] [])
    \<and> map called (filter (\<lambda>e. \<not> is_import e) (trace (notebook lib))) =
        [''range'', ''list'', ''CalendarRange'', ''ScrapingParameters'', ''TimeDotIrScraper'',
         ''scrape'']
    \<and> (case scrape lib scr h1 of
          Returns r h2 \<Rightarrow>
            bindings ''results'' (notebook lib) = [r] \<and> heap (notebook lib) = h2
            \<and> raised (notebook lib) = None
        | Raises e \<Rightarrow>
            bindings ''results'' (notebook lib) = [] \<and> raised (notebook lib) = Some e)"
proof (cases "scrape lib scr h1")
  case (Raises e)
  show ?thesis
    by (simp add: notebook_scrape_raises [OF assms Raises] Raises assembled_eq bindings_def
        sole_construction_def)
next
  case (Returns r h2)
  show ?thesis
    by (simp add: notebook_completes [OF assms Returns] Returns assembled_eq bindings_def
        sole_construction_def)
qed

theorem scrape_invoked_once_witness:
  "filter is_invocation (trace (notebook stub_library)) = [Invoke (VRef 3) ''scrape'' [] []]
   \<and> bindings ''results'' (notebook stub_library) = [VRef 4]
   \<and> raised (notebook stub_library) = None"
  using scrape_invoked_once [OF stub_constructor] by (simp add: stub_scrape)




end
